theory Spec2Isabelle
  imports Main "HOL-Library.AList"
begin

section \<open>Go values\<close>

text \<open>
  A Go \<^verbatim>\<open>string\<close> is a sequence of bytes, which is what \<^typ>\<open>string\<close> is here
  (a list of 8-bit characters); \<^verbatim>\<open>len\<close> is \<^const>\<open>length\<close>. Indexing and
  slicing out of range panic in Go, so both return a sum whose left side is the panic.
\<close>

datatype panic = IndexOutOfRange | SliceBoundsOutOfRange | InvalidArgumentToIntn

definition byte :: "char \<Rightarrow> nat" where
  "byte c = of_char c"

definition newline :: char where
  "newline = CHR 0x0A"

definition dquote :: char where
  "dquote = CHR 0x22"

text \<open>\<^verbatim>\<open>s[i]\<close>\<close>

definition index_string :: "string \<Rightarrow> int \<Rightarrow> panic + char" where
  "index_string s i = (if 0 \<le> i \<and> i < int (length s) then Inr (s ! nat i) else Inl IndexOutOfRange)"

text \<open>\<^verbatim>\<open>s[i:]\<close>\<close>

definition slice_from :: "string \<Rightarrow> nat \<Rightarrow> panic + string" where
  "slice_from s i = (if i \<le> length s then Inr (drop i s) else Inl SliceBoundsOutOfRange)"

definition HasPrefix :: "string \<Rightarrow> string \<Rightarrow> bool" where
  "HasPrefix s p = (take (length p) s = p)"

definition HasSuffix :: "string \<Rightarrow> string \<Rightarrow> bool" where
  "HasSuffix s p = (length p \<le> length s \<and> drop (length s - length p) s = p)"

text \<open>\<^verbatim>\<open>strings.Cut(s, sep)\<close> for a one-byte separator: the text before the first
  \<open>sep\<close> and the text after it; all of \<open>s\<close> and the empty string when there is none.\<close>

definition Cut :: "string \<Rightarrow> char \<Rightarrow> string \<times> string" where
  "Cut s sep = (takeWhile (\<lambda>c. c \<noteq> sep) s, drop 1 (dropWhile (\<lambda>c. c \<noteq> sep) s))"

definition isLetter :: "char \<Rightarrow> bool" where
  "isLetter c = (97 \<le> byte c \<and> byte c \<le> 122 \<or> 65 \<le> byte c \<and> byte c \<le> 90)"

definition isDigit :: "char \<Rightarrow> bool" where
  "isDigit c = (48 \<le> byte c \<and> byte c \<le> 57)"

definition alphanumeric :: "char \<Rightarrow> bool" where
  "alphanumeric c = (isLetter c \<or> isDigit c)"

definition ishex :: "char \<Rightarrow> bool" where
  "ishex c = (isDigit c \<or> 97 \<le> byte c \<and> byte c \<le> 102 \<or> 65 \<le> byte c \<and> byte c \<le> 70)"

definition toUpper :: "char \<Rightarrow> char" where
  "toUpper c = (if 97 \<le> byte c \<and> byte c \<le> 122 then char_of (byte c - 32) else c)"


section \<open>The library calls of the program\<close>

text \<open>
  \<^verbatim>\<open>main.go\<close> is glue over \<^verbatim>\<open>math/rand\<close>, \<^verbatim>\<open>encoding/json\<close> and
  \<^verbatim>\<open>net/http\<close>. The definitions of this section are the behaviour of the library
  calls the program makes, as the Go standard library documents and implements it; the
  program itself starts at the section on \<^verbatim>\<open>main.go\<close>.
\<close>

subsection \<open>math/rand\<close>

text \<open>
  The state of the package's global source is the sequence of raw values it will still
  produce. \<^verbatim>\<open>rand.Intn(n)\<close> returns a number in \<open>[0, n)\<close> and panics when
  \<open>n \<le> 0\<close>; every result in the interval is possible, as every raw value is.
\<close>

type_synonym source = "nat \<Rightarrow> nat"

definition rand_Intn :: "int \<Rightarrow> source \<Rightarrow> panic + (int \<times> source)" where
  "rand_Intn n src =
     (if n \<le> 0 then Inl InvalidArgumentToIntn
      else Inr (int (src 0) mod n, \<lambda>i. src (Suc i)))"

subsection \<open>encoding/json: decoding into the struct, encoding a map\<close>

text \<open>
  The first JSON value that \<^verbatim>\<open>json.NewDecoder(r.Body)\<close> reads from the body. A
  body that does not start with a JSON value (a syntax error, or no bytes at all) is
  \<^const>\<open>None\<close> in the request.
\<close>

datatype json =
    JNull
  | JBool bool
  | JNumber string
  | JString string
  | JArray "json list"
  | JObject "(string \<times> json) list"

record URLPair =
  Original :: string
  ShortCode :: string

datatype json_error = SyntaxError | UnmarshalTypeError

datatype field = FOriginal | FShortCode

text \<open>
  The field a member's key sets: the field whose tag is the key, or else the one whose
  tag equals it when case is folded. Folding maps a-z to A-Z; of all other characters
  only the long s (U+017F, the bytes C5 BF) folds to an ASCII letter, S.
\<close>

fun foldName :: "string \<Rightarrow> string" where
  "foldName [] = []"
| "foldName [c] = [toUpper c]"
| "foldName (c # d # cs) =
     (if byte c = 197 \<and> byte d = 191 then CHR ''S'' # foldName cs
      else toUpper c # foldName (d # cs))"

definition field_of_key :: "string \<Rightarrow> field option" where
  "field_of_key k =
     (if k = ''original'' then Some FOriginal
      else if k = ''short_code'' then Some FShortCode
      else if foldName k = ''ORIGINAL'' then Some FOriginal
      else if foldName k = ''SHORT_CODE'' then Some FShortCode
      else None)"

definition set_field :: "field \<Rightarrow> string \<Rightarrow> URLPair \<Rightarrow> URLPair" where
  "set_field f s p = (case f of FOriginal \<Rightarrow> p\<lparr>Original := s\<rparr> | FShortCode \<Rightarrow> p\<lparr>ShortCode := s\<rparr>)"

text \<open>
  One member of an object: a key that names no field is ignored, \<^verbatim>\<open>null\<close> leaves the
  field as it is, a string is stored, and any other value is a type error; decoding
  goes on after a type error and reports it at the end (the flag).
\<close>

fun decode_members :: "(string \<times> json) list \<Rightarrow> URLPair \<times> bool \<Rightarrow> URLPair \<times> bool" where
  "decode_members [] acc = acc"
| "decode_members ((k, v) # kvs) (p, failed) =
     (case field_of_key k of
        None \<Rightarrow> decode_members kvs (p, failed)
      | Some f \<Rightarrow>
          (case v of
             JNull \<Rightarrow> decode_members kvs (p, failed)
           | JString s \<Rightarrow> decode_members kvs (set_field f s p, failed)
           | _ \<Rightarrow> decode_members kvs (p, True)))"

text \<open>
  \<^verbatim>\<open>Decode(&urlPair)\<close>: \<^verbatim>\<open>null\<close> has no effect on a struct, an object sets the
  fields its members name, and a value of any other kind cannot be stored in a struct.
\<close>

definition json_Decode :: "json option \<Rightarrow> URLPair \<Rightarrow> json_error + URLPair" where
  "json_Decode body p =
     (case body of
        None \<Rightarrow> Inl SyntaxError
      | Some JNull \<Rightarrow> Inr p
      | Some (JObject kvs) \<Rightarrow>
          (case decode_members kvs (p, False) of
             (p', failed) \<Rightarrow> if failed then Inl UnmarshalTypeError else Inr p')
      | Some _ \<Rightarrow> Inl UnmarshalTypeError)"

subsection \<open>net/http: the request and the response writer\<close>

text \<open>
  The request: its method, the path of its URL as \<^verbatim>\<open>r.URL.Path\<close> has it
  (decoded), the encoded path \<^verbatim>\<open>r.URL.RawPath\<close> (empty unless the path arrived
  in an encoding other than the default one), and its body.
\<close>

record request =
  Method :: string
  URL_Path :: string
  URL_RawPath :: string
  Body :: "json option"

text \<open>
  What is written to the body: bytes, or the line \<^verbatim>\<open>json.Encoder.Encode\<close> writes
  for a \<^verbatim>\<open>map[string]string\<close>, kept as its members in the order of their keys.
\<close>

datatype chunk = Bytes string | JSONLine "(string \<times> string) list"

text \<open>
  The response writer, as \<^verbatim>\<open>httptest.ResponseRecorder\<close> records it: the status is
  200 until a header is written, only the first \<^verbatim>\<open>WriteHeader\<close> counts, and the
  first \<^verbatim>\<open>Write\<close> writes the header with 200 if none was written. (A first
  \<^verbatim>\<open>Write\<close> also guesses a content type when none is set; every write of this
  program comes after the content type is set or the header is written, so no guess is
  ever made, and none is modelled.) The headers are kept under their canonical names,
  which are the names this program and the library use.
\<close>

record ResponseWriter =
  Code :: nat
  HeaderMap :: "(string \<times> string) list"
  Written :: "chunk list"
  wroteHeader :: bool

definition NewRecorder :: ResponseWriter where
  "NewRecorder = \<lparr>Code = 200, HeaderMap = [], Written = [], wroteHeader = False\<rparr>"

definition Header_Get :: "ResponseWriter \<Rightarrow> string \<Rightarrow> string option" where
  "Header_Get w k = map_of (HeaderMap w) k"

definition Header_Set :: "ResponseWriter \<Rightarrow> string \<Rightarrow> string \<Rightarrow> ResponseWriter" where
  "Header_Set w k v = w\<lparr>HeaderMap := AList.update k v (HeaderMap w)\<rparr>"

definition Header_Del :: "ResponseWriter \<Rightarrow> string \<Rightarrow> ResponseWriter" where
  "Header_Del w k = w\<lparr>HeaderMap := AList.delete k (HeaderMap w)\<rparr>"

definition WriteHeader :: "ResponseWriter \<Rightarrow> nat \<Rightarrow> ResponseWriter" where
  "WriteHeader w c = (if wroteHeader w then w else w\<lparr>Code := c, wroteHeader := True\<rparr>)"

definition Write :: "ResponseWriter \<Rightarrow> chunk \<Rightarrow> ResponseWriter" where
  "Write w ch = (let w' = WriteHeader w 200 in w'\<lparr>Written := Written w' @ [ch]\<rparr>)"

definition json_Encode :: "ResponseWriter \<Rightarrow> (string \<times> string) list \<Rightarrow> ResponseWriter" where
  "json_Encode w m = Write w (JSONLine m)"

text \<open>
  \<^verbatim>\<open>http.Error(w, msg, code)\<close>: a plain-text reply with the given status, the
  message followed by a newline. It removes a content length, sets the content type to
  plain text and forbids guessing another.
\<close>

definition http_Error :: "ResponseWriter \<Rightarrow> string \<Rightarrow> nat \<Rightarrow> ResponseWriter" where
  "http_Error w msg c =
     (let w1 = Header_Del w ''Content-Length'';
          w2 = Header_Set w1 ''Content-Type'' ''text/plain; charset=utf-8'';
          w3 = Header_Set w2 ''X-Content-Type-Options'' ''nosniff'';
          w4 = WriteHeader w3 c
      in Write w4 (Bytes (msg @ [newline])))"

subsection \<open>net/url and path, as far as \<^verbatim>\<open>http.Redirect\<close> uses them\<close>

text \<open>
  \<^verbatim>\<open>http.Redirect\<close> parses its target with \<^verbatim>\<open>url.Parse\<close> and rewrites the
  target when the parse succeeds with neither a scheme nor a host. The functions below
  follow \<^verbatim>\<open>url.Parse\<close> as far as that question needs.
\<close>

definition stringContainsCTLByte :: "string \<Rightarrow> bool" where
  "stringContainsCTLByte s = list_ex (\<lambda>c. byte c < 32 \<or> byte c = 127) s"

datatype url_error = MissingProtocolScheme

text \<open>
  \<^verbatim>\<open>getScheme\<close>: the scheme before the first colon and the rest after it, when
  everything before the colon is a letter, or (not in first place) a digit or one of
  \<^verbatim>\<open>+-.\<close>; no scheme and the whole text otherwise. \<open>i\<close> is the index of the loop.
\<close>

fun getScheme_from :: "string \<Rightarrow> nat \<Rightarrow> string \<Rightarrow> url_error + (string \<times> string)" where
  "getScheme_from rawURL i [] = Inr ([], rawURL)"
| "getScheme_from rawURL i (c # cs) =
     (if isLetter c then getScheme_from rawURL (Suc i) cs
      else if isDigit c \<or> c = CHR ''+'' \<or> c = CHR ''-'' \<or> c = CHR ''.'' then
        (if i = 0 then Inr ([], rawURL) else getScheme_from rawURL (Suc i) cs)
      else if c = CHR '':'' then
        (if i = 0 then Inl MissingProtocolScheme
         else Inr (take i rawURL, drop (Suc i) rawURL))
      else Inr ([], rawURL))"

definition getScheme :: "string \<Rightarrow> url_error + (string \<times> string)" where
  "getScheme rawURL = getScheme_from rawURL 0 rawURL"

text \<open>
  \<^verbatim>\<open>unescape\<close> fails on a percent sign that two hexadecimal digits do not follow
  (in the modes of a path, a fragment and a user name or password it fails on nothing
  else).
\<close>

fun unescape_ok :: "string \<Rightarrow> bool" where
  "unescape_ok [] = True"
| "unescape_ok (c # cs) =
     (if c = CHR ''%'' then
        (case cs of
           h1 # h2 # rest \<Rightarrow> ishex h1 \<and> ishex h2 \<and> unescape_ok rest
         | _ \<Rightarrow> False)
      else unescape_ok cs)"

definition validUserinfo :: "string \<Rightarrow> bool" where
  "validUserinfo s =
     list_all (\<lambda>c. isLetter c \<or> isDigit c \<or> c \<in> set ''-._:~!$&'' \<or> byte c = 39
                   \<or> c \<in> set ''()*+,;=%@'') s"

text \<open>
  \<^verbatim>\<open>parseAuthority\<close> on an authority, asked only whether it succeeds with an empty
  host: the text after the last \<^verbatim>\<open>@\<close> (all of it when there is none) is the host
  and port, and a host that is not empty either fails to parse or stays not empty.
\<close>

definition authority_without_host :: "string \<Rightarrow> bool" where
  "authority_without_host authority =
     (if CHR ''@'' \<notin> set authority then authority = []
      else
        (let hostport = rev (takeWhile (\<lambda>c. c \<noteq> CHR ''@'') (rev authority));
             userinfo = take (length authority - length hostport - 1) authority
         in hostport = [] \<and> validUserinfo userinfo \<and>
            (if CHR '':'' \<notin> set userinfo then unescape_ok userinfo
             else unescape_ok (fst (Cut userinfo CHR '':'')) \<and>
                  unescape_ok (snd (Cut userinfo CHR '':'')))))"

text \<open>
  \<^verbatim>\<open>parse(u, false)\<close> for the text \<open>u\<close> before the fragment: does it succeed with
  an empty scheme and an empty host?
\<close>

definition parse_relative :: "string \<Rightarrow> bool" where
  "parse_relative u =
     (if stringContainsCTLByte u then False
      else if u = ''*'' then True
      else
        (case getScheme u of
           Inl e \<Rightarrow> False
         | Inr (scheme, rest0) \<Rightarrow>
             if scheme \<noteq> [] then False
             else
               (let rest = fst (Cut rest0 CHR ''?'') in
                if \<not> HasPrefix rest ''/'' \<and> CHR '':'' \<in> set (fst (Cut rest CHR ''/'')) then False
                else if \<not> HasPrefix rest ''///'' \<and> HasPrefix rest ''//'' then
                  (let authority0 = drop 2 rest;
                       authority = takeWhile (\<lambda>c. c \<noteq> CHR ''/'') authority0;
                       rest' = dropWhile (\<lambda>c. c \<noteq> CHR ''/'') authority0
                   in authority_without_host authority \<and> unescape_ok rest')
                else unescape_ok rest)))"

text \<open>
  \<^verbatim>\<open>url.Parse(rawURL)\<close> returns no error, and a URL whose \<^verbatim>\<open>Scheme\<close> and
  \<^verbatim>\<open>Host\<close> are both empty.
\<close>

definition url_Parse_relative :: "string \<Rightarrow> bool" where
  "url_Parse_relative rawURL =
     (case Cut rawURL CHR ''#'' of
        (u, frag) \<Rightarrow> parse_relative u \<and> (frag = [] \<or> unescape_ok frag))"

text \<open>
  \<^verbatim>\<open>unescape\<close> of a path: every percent sign with its two hexadecimal digits
  becomes the byte they stand for; an error (\<^const>\<open>None\<close>) where
  \<^const>\<open>unescape_ok\<close> fails.
\<close>

definition unhex :: "char \<Rightarrow> nat" where
  "unhex c =
     (if isDigit c then byte c - 48
      else if 97 \<le> byte c \<and> byte c \<le> 102 then byte c - 97 + 10
      else if 65 \<le> byte c \<and> byte c \<le> 70 then byte c - 65 + 10
      else 0)"

fun unescape_bytes :: "string \<Rightarrow> string" where
  "unescape_bytes [] = []"
| "unescape_bytes [c] = [c]"
| "unescape_bytes [c, d] = [c, d]"
| "unescape_bytes (c # h1 # h2 # cs) =
     (if c = CHR ''%'' then char_of (unhex h1 * 16 + unhex h2) # unescape_bytes cs
      else c # unescape_bytes (h1 # h2 # cs))"

definition unescape_path :: "string \<Rightarrow> string option" where
  "unescape_path s = (if unescape_ok s then Some (unescape_bytes s) else None)"

text \<open>
  \<^verbatim>\<open>shouldEscape(c, encodePath)\<close>: letters, digits, the marks
  \<^verbatim>\<open>-_.~\<close> and the reserved characters \<^verbatim>\<open>$&+,/:;=@\<close> stand for
  themselves in a path; the question mark and every other byte are escaped.
\<close>

definition shouldEscape_path :: "char \<Rightarrow> bool" where
  "shouldEscape_path c =
     (\<not> (isLetter c \<or> isDigit c \<or> c \<in> set ''-_.~'' \<or> c \<in> set ''$&+,/:;=@''))"

definition upperhex :: "nat \<Rightarrow> char" where
  "upperhex n = ''0123456789ABCDEF'' ! (n mod 16)"

text \<open>\<^verbatim>\<open>escape(s, encodePath)\<close>\<close>

definition escape_path :: "string \<Rightarrow> string" where
  "escape_path s =
     concat (map (\<lambda>c. if shouldEscape_path c
                       then [CHR ''%'', upperhex (byte c div 16), upperhex (byte c)]
                       else [c]) s)"

text \<open>
  \<^verbatim>\<open>validEncoded(s, encodePath)\<close>: besides what needs no escaping, the
  sub-delimiters, the brackets and the percent sign may stand in an encoded path.
\<close>

definition validEncoded_path :: "string \<Rightarrow> bool" where
  "validEncoded_path s =
     list_all (\<lambda>c. c \<in> set ''!$&()*+,;=:@[]%'' \<or> byte c = 39 \<or> \<not> shouldEscape_path c) s"

text \<open>
  \<^verbatim>\<open>r.URL.EscapedPath()\<close>: the encoded path the URL came with, when that is
  a valid encoding of the path; otherwise the default encoding of the path
  (\<^verbatim>\<open>*\<close> is left alone).
\<close>

definition EscapedPath :: "request \<Rightarrow> string" where
  "EscapedPath r =
     (if URL_RawPath r \<noteq> [] \<and> validEncoded_path (URL_RawPath r) \<and>
         unescape_path (URL_RawPath r) = Some (URL_Path r)
      then URL_RawPath r
      else if URL_Path r = ''*'' then ''*''
      else escape_path (URL_Path r))"

text \<open>\<^verbatim>\<open>path.Split\<close>: the directory, up to and with the last slash, and the file.\<close>

definition path_Split :: "string \<Rightarrow> string \<times> string" where
  "path_Split p =
     (let file = rev (takeWhile (\<lambda>c. c \<noteq> CHR ''/'') (rev p))
      in (take (length p - length file) p, file))"

text \<open>
  \<^verbatim>\<open>path.Clean\<close>, on the elements between the slashes: empty elements and
  \<^verbatim>\<open>.\<close> go, \<^verbatim>\<open>..\<close> takes the element before it away, is dropped at the root
  of a rooted path and is kept at the start of any other; no element at all is
  \<^verbatim>\<open>.\<close>.
\<close>

fun elements :: "string \<Rightarrow> string \<Rightarrow> string list" where
  "elements cur [] = [cur]"
| "elements cur (c # cs) =
     (if c = CHR ''/'' then cur # elements [] cs else elements (cur @ [c]) cs)"

fun clean_elements :: "bool \<Rightarrow> string list \<Rightarrow> string list \<Rightarrow> string list" where
  "clean_elements rooted out [] = out"
| "clean_elements rooted out (e # es) =
     (if e = [] \<or> e = ''.'' then clean_elements rooted out es
      else if e = ''..'' then
        (if out \<noteq> [] \<and> last out \<noteq> ''..'' then clean_elements rooted (butlast out) es
         else if \<not> rooted then clean_elements rooted (out @ [''..'']) es
         else clean_elements rooted out es)
      else clean_elements rooted (out @ [e]) es)"

fun join_slash :: "string list \<Rightarrow> string" where
  "join_slash [] = []"
| "join_slash [e] = e"
| "join_slash (e # f # es) = e @ ''/'' @ join_slash (f # es)"

definition path_Clean :: "string \<Rightarrow> string" where
  "path_Clean p =
     (if p = [] then ''.''
      else
        (let rooted = (hd p = CHR ''/'');
             out = join_slash (clean_elements rooted [] (elements [] p));
             cleaned = (if rooted then CHR ''/'' # out else out)
         in if cleaned = [] then ''.'' else cleaned))"

subsection \<open>net/http: \<^verbatim>\<open>http.Redirect\<close>\<close>

definition hexdigit :: "nat \<Rightarrow> char" where
  "hexdigit n = ''0123456789abcdef'' ! (n mod 16)"

text \<open>Every byte from 0x80 on becomes a percent sign and its two hexadecimal digits.\<close>

definition hexEscapeNonASCII :: "string \<Rightarrow> string" where
  "hexEscapeNonASCII s =
     concat (map (\<lambda>c. if 128 \<le> byte c
                       then [CHR ''%'', hexdigit (byte c div 16), hexdigit (byte c)]
                       else [c]) s)"

definition htmlEscape :: "string \<Rightarrow> string" where
  "htmlEscape s =
     concat (map (\<lambda>c. if c = CHR ''&'' then ''&amp;''
                       else if c = CHR ''<'' then ''&lt;''
                       else if c = CHR ''>'' then ''&gt;''
                       else if c = dquote then ''&#34;''
                       else if byte c = 39 then ''&#39;''
                       else [c]) s)"

text \<open>
  The status codes this program names, and the entries of \<^verbatim>\<open>http.StatusText\<close>
  for them (the only text that is ever asked for is that of 307).
\<close>

definition StatusOK :: nat where "StatusOK = 200"
definition StatusTemporaryRedirect :: nat where "StatusTemporaryRedirect = 307"
definition StatusBadRequest :: nat where "StatusBadRequest = 400"
definition StatusNotFound :: nat where "StatusNotFound = 404"
definition StatusMethodNotAllowed :: nat where "StatusMethodNotAllowed = 405"

definition StatusText :: "nat \<Rightarrow> string" where
  "StatusText c =
     (if c = 200 then ''OK''
      else if c = 307 then ''Temporary Redirect''
      else if c = 400 then ''Bad Request''
      else if c = 404 then ''Not Found''
      else if c = 405 then ''Method Not Allowed''
      else [])"

text \<open>
  The target of a redirect that \<^verbatim>\<open>url.Parse\<close> reads as having no scheme and no
  host is made a path from the root: a target that does not start with a slash is put
  after the directory of the request's path (the escaped path,
  \<^verbatim>\<open>r.URL.EscapedPath()\<close>), and the part before the first question mark is
  cleaned, keeping a slash at its end.
\<close>

definition absolute_target :: "string \<Rightarrow> string \<Rightarrow> string" where
  "absolute_target reqpath url =
     (let oldpath = (if reqpath = [] then ''/'' else reqpath);
          url1 = (if url = [] \<or> hd url \<noteq> CHR ''/'' then fst (path_Split oldpath) @ url else url);
          url2 = takeWhile (\<lambda>c. c \<noteq> CHR ''?'') url1;
          query = dropWhile (\<lambda>c. c \<noteq> CHR ''?'') url1;
          trailing = HasSuffix url2 ''/'';
          url3 = path_Clean url2;
          url4 = (if trailing \<and> \<not> HasSuffix url3 ''/'' then url3 @ ''/'' else url3)
      in url4 @ query)"

definition redirect_target :: "request \<Rightarrow> string \<Rightarrow> string" where
  "redirect_target r url =
     (if url_Parse_relative url then absolute_target (EscapedPath r) url else url)"

text \<open>
  \<^verbatim>\<open>http.Redirect(w, r, url, code)\<close> replies to the request with a redirect to
  \<open>url\<close>, which may be a path relative to the path of the request. The
  \<^verbatim>\<open>Location\<close> header is the target with its bytes outside ASCII escaped. Unless
  the writer already has a content type, a GET or HEAD request gets the content type of
  HTML, and a GET request a short HTML body with a link to the target.
\<close>

definition http_Redirect :: "ResponseWriter \<Rightarrow> request \<Rightarrow> string \<Rightarrow> nat \<Rightarrow> ResponseWriter" where
  "http_Redirect w r url c =
     (let url' = redirect_target r url;
          hadCT = (Header_Get w ''Content-Type'' \<noteq> None);
          w1 = Header_Set w ''Location'' (hexEscapeNonASCII url');
          w2 = (if \<not> hadCT \<and> (Method r = ''GET'' \<or> Method r = ''HEAD'')
                then Header_Set w1 ''Content-Type'' ''text/html; charset=utf-8'' else w1);
          w3 = WriteHeader w2 c
      in if \<not> hadCT \<and> Method r = ''GET''
         then Write w3 (Bytes (''<a href='' @ [dquote] @ htmlEscape url' @ [dquote] @ ''>''
                               @ StatusText c @ ''</a>.'' @ [newline] @ [newline]))
         else w3)"


section \<open>main.go\<close>

text \<open>
  The two handlers and the code generator, as \<^verbatim>\<open>main.go\<close> has them. A handler
  takes the response writer, the request and the state of the process, and returns the
  writer and the state as it leaves them, or the panic that ends it. The logging wrapper
  of \<^verbatim>\<open>main.go\<close> calls the handler with the same writer and request and is left
  out, as is the registration of the two routes in \<^verbatim>\<open>main\<close>.

  The state of the process: the global \<^verbatim>\<open>urlMap\<close>
  (\<^verbatim>\<open>var urlMap = make(map[string]string)\<close>), and the global source of
  \<^verbatim>\<open>math/rand\<close> that \<^verbatim>\<open>generateShortCode\<close> draws from.
\<close>

record state =
  urlMap :: "string \<rightharpoonup> string"
  randSource :: source

definition chars :: string where
  "chars = ''abcdefghijklmnopqrstuvwxyzABCDEFGHIJKLMNOPQRSTUVWXYZ0123456789''"

text \<open>
  \<^verbatim>\<open>
  func generateShortCode() string {
      chars := "abcdefghijklmnopqrstuvwxyzABCDEFGHIJKLMNOPQRSTUVWXYZ0123456789"
      shortCode := make([]byte, 6)
      for i := range shortCode {
          shortCode[i] = chars[rand.Intn(len(chars))]
      }
      return string(shortCode)
  }
  \<close>
  \<^const>\<open>chars\<close> is the string of that name. The loop runs over the indices of
  \<^verbatim>\<open>shortCode\<close>, here the list of those still to fill; each index is within the
  slice, so the assignment itself cannot panic, while the call of \<^verbatim>\<open>rand.Intn\<close>
  and the indexing of \<^verbatim>\<open>chars\<close> are the library's and the language's and can.
\<close>

fun fill_shortCode :: "nat list \<Rightarrow> string \<Rightarrow> source \<Rightarrow> panic + (string \<times> source)" where
  "fill_shortCode [] shortCode src = Inr (shortCode, src)"
| "fill_shortCode (i # is) shortCode src =
     (case rand_Intn (int (length chars)) src of
        Inl p \<Rightarrow> Inl p
      | Inr (k, src') \<Rightarrow>
          (case index_string chars k of
             Inl p \<Rightarrow> Inl p
           | Inr c \<Rightarrow> fill_shortCode is (shortCode[i := c]) src'))"

definition generateShortCode :: "source \<Rightarrow> panic + (string \<times> source)" where
  "generateShortCode src =
     (let shortCode = replicate 6 (CHR 0x00)
      in fill_shortCode [0..<length shortCode] shortCode src)"

text \<open>
  \<^verbatim>\<open>
  func shortenHandler(w http.ResponseWriter, r *http.Request) {
      if r.Method != http.MethodPost {
          http.Error(w, "Method not allowed", http.StatusMethodNotAllowed)
          return
      }
      var urlPair URLPair
      if err := json.NewDecoder(r.Body).Decode(&urlPair); err != nil {
          http.Error(w, "Invalid request body", http.StatusBadRequest)
          return
      }
      shortCode := generateShortCode()
      urlMap[shortCode] = urlPair.Original
      response := map[string]string{
          "short_code": shortCode,
          "short_url":  "http://localhost:8080/" + shortCode,
      }
      w.Header().Set("Content-Type", "application/json")
      json.NewEncoder(w).Encode(response)
  }
  \<close>
\<close>

definition shortenHandler ::
  "ResponseWriter \<Rightarrow> request \<Rightarrow> state \<Rightarrow> panic + (ResponseWriter \<times> state)" where
  "shortenHandler w r st =
     (if Method r \<noteq> ''POST'' then
        Inr (http_Error w ''Method not allowed'' StatusMethodNotAllowed, st)
      else
        (case json_Decode (Body r) \<lparr>Original = [], ShortCode = []\<rparr> of
           Inl err \<Rightarrow> Inr (http_Error w ''Invalid request body'' StatusBadRequest, st)
         | Inr urlPair \<Rightarrow>
             (case generateShortCode (randSource st) of
                Inl p \<Rightarrow> Inl p
              | Inr (shortCode, src') \<Rightarrow>
                  (let st' = st\<lparr>urlMap := (urlMap st)(shortCode \<mapsto> Original urlPair),
                                randSource := src'\<rparr>;
                       response = [(''short_code'', shortCode),
                                   (''short_url'', ''http://localhost:8080/'' @ shortCode)];
                       w1 = Header_Set w ''Content-Type'' ''application/json''
                   in Inr (json_Encode w1 response, st')))))"

text \<open>
  \<^verbatim>\<open>
  func redirectHandler(w http.ResponseWriter, r *http.Request) {
      shortCode := r.URL.Path[1:]
      originalURL, exists := urlMap[shortCode]
      if !exists {
          http.Error(w, "Short code not found", http.StatusNotFound)
          return
      }
      http.Redirect(w, r, originalURL, http.StatusTemporaryRedirect)
  }
  \<close>
  The slice \<^verbatim>\<open>r.URL.Path[1:]\<close> panics on an empty path, and drops the first byte
  of any other, whatever that byte is.
\<close>

definition redirectHandler ::
  "ResponseWriter \<Rightarrow> request \<Rightarrow> state \<Rightarrow> panic + (ResponseWriter \<times> state)" where
  "redirectHandler w r st =
     (case slice_from (URL_Path r) 1 of
        Inl p \<Rightarrow> Inl p
      | Inr shortCode \<Rightarrow>
          (case urlMap st shortCode of
             None \<Rightarrow> Inr (http_Error w ''Short code not found'' StatusNotFound, st)
           | Some originalURL \<Rightarrow>
               Inr (http_Redirect w r originalURL StatusTemporaryRedirect, st)))"

text \<open>
  The states the process can be in: it starts with an empty map and some state of the
  random source, and every request served by either handler (without a panic) leads
  from one state to the next.
\<close>

inductive reachable :: "state \<Rightarrow> bool" where
  start: "reachable \<lparr>urlMap = Map.empty, randSource = src\<rparr>"
| shorten: "reachable st \<Longrightarrow> shortenHandler w r st = Inr (w', st') \<Longrightarrow> reachable st'"
| redirect: "reachable st \<Longrightarrow> redirectHandler w r st = Inr (w', st') \<Longrightarrow> reachable st'"


section \<open>Example requests and states\<close>

text \<open>
  Concrete inputs for the examples below: a random source that always produces 0 (so
  the generated code is \<^verbatim>\<open>aaaaaa\<close>), the state of a process that has stored
  nothing yet, and the two kinds of request of \<^verbatim>\<open>main_test.go\<close>.
\<close>

definition zeros :: source where
  "zeros = (\<lambda>i. 0)"

definition no_urls :: state where
  "no_urls = \<lparr>urlMap = Map.empty, randSource = zeros\<rparr>"

definition post_shorten :: "json option \<Rightarrow> request" where
  "post_shorten b =
     \<lparr>Method = ''POST'', URL_Path = ''/shorten'', URL_RawPath = [], Body = b\<rparr>"

definition get_path :: "string \<Rightarrow> request" where
  "get_path p = \<lparr>Method = ''GET'', URL_Path = p, URL_RawPath = [], Body = None\<rparr>"


section \<open>The short code\<close>

lemma length_chars: "length chars = 62"
  by (simp add: chars_def)

lemma rand_Intn_chars:
  "rand_Intn (int (length chars)) src = Inr (int (src 0 mod 62), \<lambda>i. src (Suc i))"
  by (simp add: rand_Intn_def length_chars zmod_int)

lemma index_string_chars:
  "index_string chars (int (n mod 62)) = Inr (chars ! (n mod 62))"
  by (simp add: index_string_def length_chars)

lemma fill_shortCode_Cons:
  "fill_shortCode (i # is) shortCode src =
     fill_shortCode is (shortCode[i := chars ! (src 0 mod 62)]) (\<lambda>i. src (Suc i))"
  by (simp add: rand_Intn_chars index_string_chars)

lemma upt6: "[0..<6] = [0, 1, 2, 3, 4, 5::nat]"
  by code_simp

lemma rep6: "replicate 6 x = [x, x, x, x, x, x]"
  by (simp add: numeral_eq_Suc)

lemma generateShortCode_eq:
  "generateShortCode src =
     Inr (map (\<lambda>i. chars ! (src i mod 62)) [0..<6], \<lambda>i. src (i + 6))"
proof -
  have e: "Suc (Suc 0) = 2" "Suc (Suc (Suc 0)) = 3" "Suc (Suc (Suc (Suc 0))) = 4"
    "Suc (Suc (Suc (Suc (Suc 0)))) = 5"
    "\<And>i. Suc (Suc (Suc (Suc (Suc (Suc i))))) = i + 6"
    by simp_all
  show ?thesis
    unfolding generateShortCode_def Let_def
    by (simp add: rep6 upt6 fill_shortCode_Cons e del: fill_shortCode.simps(2) replicate_Suc)
qed

lemma chars_nth_mem: "chars ! (n mod 62) \<in> set chars"
  by (rule nth_mem) (simp add: length_chars)

lemma generateShortCode_returns:
  "\<exists>shortCode src'. generateShortCode src = Inr (shortCode, src') \<and>
     length shortCode = 6 \<and> set shortCode \<subseteq> set chars"
proof -
  let ?c = "map (\<lambda>i. chars ! (src i mod 62)) [0..<6]"
  let ?s = "\<lambda>i. src (i + 6)"
  have 1: "generateShortCode src = Inr (?c, ?s)"
    by (rule generateShortCode_eq)
  have 2: "length ?c = 6"
    by simp
  have 3: "set ?c \<subseteq> set chars"
    unfolding set_map by (rule image_subsetI) (rule chars_nth_mem)
  show ?thesis
    by (rule exI[of _ ?c], rule exI[of _ ?s]) (simp only: 1 2 3 simp_thms)
qed


lemma alphanumeric_chars: "list_all alphanumeric chars"
  by (simp add: chars_def alphanumeric_def isLetter_def isDigit_def byte_def)

lemma distinct_chars: "distinct chars"
  by (simp add: chars_def)

text \<open>
  Claim C2. Whatever the random source produces, \<^verbatim>\<open>generateShortCode\<close> returns (it
  does not panic), and what it returns is a string of exactly 6 bytes, each of them one
  of \<^const>\<open>chars\<close>; \<^const>\<open>chars\<close> is 62 different characters, each a letter
  a-z or A-Z or a digit 0-9.
\<close>

theorem generateShortCode_six_alphanumeric:
  "(\<exists>shortCode src'. generateShortCode src = Inr (shortCode, src') \<and>
      length shortCode = 6 \<and> set shortCode \<subseteq> set chars \<and> list_all alphanumeric shortCode) \<and>
   length chars = 62 \<and> distinct chars \<and> list_all alphanumeric chars"
proof -
  obtain shortCode src' where g: "generateShortCode src = Inr (shortCode, src')"
    and l: "length shortCode = 6" and s: "set shortCode \<subseteq> set chars"
    using generateShortCode_returns by blast
  from s alphanumeric_chars have a: "list_all alphanumeric shortCode"
    unfolding list_all_iff by blast
  from g l s a have "\<exists>shortCode src'. generateShortCode src = Inr (shortCode, src') \<and>
      length shortCode = 6 \<and> set shortCode \<subseteq> set chars \<and> list_all alphanumeric shortCode"
    by blast
  with length_chars distinct_chars alphanumeric_chars show ?thesis
    by blast
qed


section \<open>Redirect targets that start with a scheme\<close>

text \<open>
  \<^verbatim>\<open>url.Parse\<close> finds the scheme of a target that starts with one, so
  \<^verbatim>\<open>http.Redirect\<close> leaves such a target as it is; and a target of ASCII bytes
  has nothing to escape.
\<close>

lemma not_scheme_chars:
  "\<not> isLetter CHR '':''" "\<not> isDigit CHR '':''" "CHR '':'' \<notin> set ''+-.''"
  "\<not> isLetter CHR ''#''" "\<not> isDigit CHR ''#''" "CHR ''#'' \<notin> set ''+-.''"
  by (simp_all add: isLetter_def isDigit_def byte_def)

lemma getScheme_from_scheme:
  assumes "list_all (\<lambda>x. isLetter x \<or> isDigit x \<or> x \<in> set ''+-.'') s"
    and "pre = [] \<longrightarrow> s \<noteq> [] \<and> isLetter (hd s)"
    and "pre @ s \<noteq> []"
  shows "getScheme_from (pre @ s @ CHR '':'' # rest) (length pre) (s @ CHR '':'' # rest) =
           Inr (pre @ s, rest)"
  using assms
proof (induction s arbitrary: pre)
  case Nil
  then have "pre \<noteq> []" by simp
  then show ?case by (simp add: not_scheme_chars)
next
  case (Cons c s)
  have step: "getScheme_from (pre @ (c # s) @ CHR '':'' # rest) (length pre) ((c # s) @ CHR '':'' # rest) =
      getScheme_from ((pre @ [c]) @ s @ CHR '':'' # rest) (length (pre @ [c])) (s @ CHR '':'' # rest)"
  proof (cases "isLetter c")
    case True
    then show ?thesis by simp
  next
    case False
    with Cons.prems(2) have "pre \<noteq> []" by auto
    moreover from Cons.prems(1) False have "isDigit c \<or> c = CHR ''+'' \<or> c = CHR ''-'' \<or> c = CHR ''.''"
      by auto
    ultimately show ?thesis using False by auto
  qed
  from Cons.prems(1) have "list_all (\<lambda>x. isLetter x \<or> isDigit x \<or> x \<in> set ''+-.'') s"
    by simp
  from Cons.IH [OF this, of "pre @ [c]"] have
    "getScheme_from ((pre @ [c]) @ s @ CHR '':'' # rest) (length (pre @ [c])) (s @ CHR '':'' # rest) =
       Inr ((pre @ [c]) @ s, rest)"
    by simp
  with step show ?case by simp
qed

lemma getScheme_scheme:
  assumes "list_all (\<lambda>x. isLetter x \<or> isDigit x \<or> x \<in> set ''+-.'') scheme"
    and "scheme \<noteq> []" and "isLetter (hd scheme)"
  shows "getScheme (scheme @ CHR '':'' # rest) = Inr (scheme, rest)"
  using getScheme_from_scheme [of scheme "[]" rest] assms by (simp add: getScheme_def)

lemma url_with_scheme_not_relative:
  assumes "list_all (\<lambda>x. isLetter x \<or> isDigit x \<or> x \<in> set ''+-.'') scheme"
    and "scheme \<noteq> []" and "isLetter (hd scheme)"
  shows "\<not> url_Parse_relative (scheme @ CHR '':'' # rest)"
proof -
  let ?rest = "takeWhile (\<lambda>c. c \<noteq> CHR ''#'') rest"
  have "\<And>x. x \<in> set scheme \<Longrightarrow> x \<noteq> CHR ''#''"
    using assms(1) not_scheme_chars by (auto simp: list_all_iff)
  then have u: "fst (Cut (scheme @ CHR '':'' # rest) CHR ''#'') = scheme @ CHR '':'' # ?rest"
    by (simp add: Cut_def)
  have star: "scheme @ CHR '':'' # ?rest \<noteq> ''*''"
    using assms(2) by (cases scheme) simp_all
  have "\<not> parse_relative (scheme @ CHR '':'' # ?rest)"
    using assms(2) star by (simp add: parse_relative_def getScheme_scheme [OF assms])
  with u show ?thesis
    by (cases "Cut (scheme @ CHR '':'' # rest) CHR ''#''") (simp add: url_Parse_relative_def)
qed

lemma hexEscapeNonASCII_ascii:
  "list_all (\<lambda>x. byte x < 128) s \<Longrightarrow> hexEscapeNonASCII s = s"
  by (induction s) (simp_all add: hexEscapeNonASCII_def)

lemma redirect_target_with_scheme:
  assumes "list_all (\<lambda>x. isLetter x \<or> isDigit x \<or> x \<in> set ''+-.'') scheme"
    and "scheme \<noteq> []" and "isLetter (hd scheme)"
  shows "redirect_target r (scheme @ CHR '':'' # rest) = scheme @ CHR '':'' # rest"
  using url_with_scheme_not_relative [OF assms] by (simp add: redirect_target_def)

lemma redirect_target_https:
  "redirect_target r ''https://example.com'' = ''https://example.com''"
proof -
  have "list_all (\<lambda>x. isLetter x \<or> isDigit x \<or> x \<in> set ''+-.'') ''https''"
    and "''https'' \<noteq> []" and "isLetter (hd ''https'')"
    by (simp_all add: isLetter_def byte_def)
  from redirect_target_with_scheme [OF this, of r "''//example.com''"] show ?thesis
    by simp
qed

section \<open>The replies of the library calls on a fresh response writer\<close>

lemma Code_http_Error: "Code (http_Error NewRecorder msg c) = c"
  by (simp add: http_Error_def Let_def Write_def WriteHeader_def Header_Set_def Header_Del_def NewRecorder_def)

lemma Code_http_Redirect: "Code (http_Redirect NewRecorder r url c) = c"
  by (simp add: http_Redirect_def Let_def Write_def WriteHeader_def Header_Set_def Header_Get_def NewRecorder_def)

lemma Location_http_Redirect:
  "Header_Get (http_Redirect NewRecorder r url c) ''Location'' = Some (hexEscapeNonASCII (redirect_target r url))"
  by (simp add: http_Redirect_def Let_def Write_def WriteHeader_def Header_Set_def Header_Get_def NewRecorder_def)

lemma http_Error_fresh:
  "http_Error NewRecorder msg c =
     \<lparr>Code = c,
      HeaderMap = [(''Content-Type'', ''text/plain; charset=utf-8''),
                   (''X-Content-Type-Options'', ''nosniff'')],
      Written = [Bytes (msg @ [newline])],
      wroteHeader = True\<rparr>"
  by (simp add: http_Error_def Let_def Write_def WriteHeader_def Header_Set_def Header_Del_def
      NewRecorder_def)

lemma json_reply:
  "json_Encode (Header_Set NewRecorder ''Content-Type'' ''application/json'') m =
     \<lparr>Code = 200, HeaderMap = [(''Content-Type'', ''application/json'')],
      Written = [JSONLine m], wroteHeader = True\<rparr>"
  by (simp add: json_Encode_def Write_def WriteHeader_def Header_Set_def NewRecorder_def Let_def)


section \<open>The shorten operation\<close>

lemma shortenHandler_not_POST:
  "Method r \<noteq> ''POST'' \<Longrightarrow>
   shortenHandler w r st = Inr (http_Error w ''Method not allowed'' StatusMethodNotAllowed, st)"
  by (simp add: shortenHandler_def)

lemma shortenHandler_bad_body:
  "Method r = ''POST'' \<Longrightarrow> json_Decode (Body r) \<lparr>Original = [], ShortCode = []\<rparr> = Inl e \<Longrightarrow>
   shortenHandler w r st = Inr (http_Error w ''Invalid request body'' StatusBadRequest, st)"
  by (simp add: shortenHandler_def)

lemma shortenHandler_stores:
  "Method r = ''POST'' \<Longrightarrow> json_Decode (Body r) \<lparr>Original = [], ShortCode = []\<rparr> = Inr urlPair \<Longrightarrow>
   generateShortCode (randSource st) = Inr (shortCode, src') \<Longrightarrow>
   shortenHandler w r st =
     Inr (json_Encode (Header_Set w ''Content-Type'' ''application/json'')
            [(''short_code'', shortCode), (''short_url'', ''http://localhost:8080/'' @ shortCode)],
          st\<lparr>urlMap := (urlMap st)(shortCode \<mapsto> Original urlPair), randSource := src'\<rparr>)"
  by (simp add: shortenHandler_def Let_def)

lemma zeros_shift: "(\<lambda>i. zeros (i + 6)) = zeros"
  by (simp add: zeros_def)

lemma generateShortCode_zeros: "generateShortCode zeros = Inr (''aaaaaa'', zeros)"
  by (simp add: generateShortCode_eq zeros_shift upt6) (simp add: zeros_def chars_def)

lemma decode_original:
  "json_Decode (Some (JObject [(''original'', JString url)])) \<lparr>Original = [], ShortCode = []\<rparr> =
     Inr \<lparr>Original = url, ShortCode = []\<rparr>"
  by (simp add: json_Decode_def field_of_key_def set_field_def)

lemma shorten_example:
  "shortenHandler NewRecorder (post_shorten (Some (JObject [(''original'', JString url)]))) no_urls =
     Inr (\<lparr>Code = 200, HeaderMap = [(''Content-Type'', ''application/json'')],
           Written = [JSONLine [(''short_code'', ''aaaaaa''),
                                (''short_url'', ''http://localhost:8080/aaaaaa'')]],
           wroteHeader = True\<rparr>,
          no_urls\<lparr>urlMap := [''aaaaaa'' \<mapsto> url]\<rparr>)"
proof -
  let ?r = "post_shorten (Some (JObject [(''original'', JString url)]))"
  have m: "Method ?r = ''POST''"
    by (simp add: post_shorten_def)
  have d: "json_Decode (Body ?r) \<lparr>Original = [], ShortCode = []\<rparr> = Inr \<lparr>Original = url, ShortCode = []\<rparr>"
    by (simp add: post_shorten_def decode_original)
  have g: "generateShortCode (randSource no_urls) = Inr (''aaaaaa'', zeros)"
    by (simp add: no_urls_def generateShortCode_zeros)
  show ?thesis
    by (simp add: shortenHandler_stores [OF m d g] json_reply) (simp add: no_urls_def)
qed

lemma reachable_no_urls: "reachable no_urls"
  unfolding no_urls_def by (rule reachable.start)

lemma reachable_after_shorten: "reachable (no_urls\<lparr>urlMap := [''aaaaaa'' \<mapsto> url]\<rparr>)"
  using reachable_no_urls shorten_example by (rule reachable.shorten)

text \<open>
  Claim C3. A POST to \<^verbatim>\<open>/shorten\<close> whose body decodes into the struct without an
  error generates a code (the call returns), stores the decoded original URL under that
  code in the map, and replies with status 200, content type
  \<^verbatim>\<open>application/json\<close> and a JSON object whose \<^verbatim>\<open>short_code\<close> is the
  generated code and whose \<^verbatim>\<open>short_url\<close> is \<^verbatim>\<open>http://localhost:8080/\<close>
  followed by the code.
\<close>

theorem shorten_stores_and_replies:
  assumes "Method r = ''POST''"
    and "json_Decode (Body r) \<lparr>Original = [], ShortCode = []\<rparr> = Inr urlPair"
  shows "\<exists>shortCode src' w'.
     generateShortCode (randSource st) = Inr (shortCode, src') \<and>
     shortenHandler NewRecorder r st =
       Inr (w', st\<lparr>urlMap := (urlMap st)(shortCode \<mapsto> Original urlPair), randSource := src'\<rparr>) \<and>
     Code w' = StatusOK \<and>
     Header_Get w' ''Content-Type'' = Some ''application/json'' \<and>
     Written w' = [JSONLine [(''short_code'', shortCode),
                             (''short_url'', ''http://localhost:8080/'' @ shortCode)]]"
proof -
  obtain shortCode src' where g: "generateShortCode (randSource st) = Inr (shortCode, src')"
    using generateShortCode_returns by blast
  let ?m = "[(''short_code'', shortCode), (''short_url'', ''http://localhost:8080/'' @ shortCode)]"
  let ?w = "json_Encode (Header_Set NewRecorder ''Content-Type'' ''application/json'') ?m"
  have h: "shortenHandler NewRecorder r st =
      Inr (?w, st\<lparr>urlMap := (urlMap st)(shortCode \<mapsto> Original urlPair), randSource := src'\<rparr>)"
    using assms g by (rule shortenHandler_stores)
  have c: "Code ?w = StatusOK" "Header_Get ?w ''Content-Type'' = Some ''application/json''"
    "Written ?w = [JSONLine ?m]"
    by (simp_all add: json_reply StatusOK_def Header_Get_def)
  from g h c show ?thesis by blast
qed

theorem shorten_stores_and_replies_witness:
  "Method (post_shorten (Some (JObject [(''original'', JString ''https://example.com'')]))) = ''POST'' \<and>
   json_Decode (Body (post_shorten (Some (JObject [(''original'', JString ''https://example.com'')]))))
     \<lparr>Original = [], ShortCode = []\<rparr> = Inr \<lparr>Original = ''https://example.com'', ShortCode = []\<rparr> \<and>
   (\<exists>w'. shortenHandler NewRecorder
          (post_shorten (Some (JObject [(''original'', JString ''https://example.com'')]))) no_urls =
        Inr (w', no_urls\<lparr>urlMap := [''aaaaaa'' \<mapsto> ''https://example.com'']\<rparr>) \<and>
      Code w' = 200 \<and>
      Written w' = [JSONLine [(''short_code'', ''aaaaaa''),
                              (''short_url'', ''http://localhost:8080/aaaaaa'')]])"
proof -
  let ?r = "post_shorten (Some (JObject [(''original'', JString ''https://example.com'')]))"
  have m: "Method ?r = ''POST''"
    by (simp add: post_shorten_def)
  have d: "json_Decode (Body ?r) \<lparr>Original = [], ShortCode = []\<rparr> =
      Inr \<lparr>Original = ''https://example.com'', ShortCode = []\<rparr>"
    by (simp add: post_shorten_def json_Decode_def field_of_key_def set_field_def)
  from shorten_stores_and_replies [OF m d, of no_urls] m d show ?thesis
    by (auto simp: no_urls_def generateShortCode_zeros StatusOK_def)
qed

text \<open>
  Claim C5. A request to \<^verbatim>\<open>/shorten\<close> with any method other than POST is
  answered with status 405; the state (the map and the random source) is returned as it
  was, and the result is the same whatever the body is: the body is not read, no code is
  generated, the map is not touched.
\<close>

theorem shorten_rejects_other_methods:
  assumes "Method r \<noteq> ''POST''"
  shows "shortenHandler NewRecorder r st =
           Inr (http_Error NewRecorder ''Method not allowed'' StatusMethodNotAllowed, st) \<and>
         Code (http_Error NewRecorder ''Method not allowed'' StatusMethodNotAllowed) = 405 \<and>
         shortenHandler NewRecorder (r\<lparr>Body := b\<rparr>) st = shortenHandler NewRecorder r st"
  using assms by (simp add: shortenHandler_not_POST Code_http_Error StatusMethodNotAllowed_def)

theorem shorten_rejects_other_methods_witness:
  "Method (get_path ''/shorten'') \<noteq> ''POST'' \<and>
   shortenHandler NewRecorder (get_path ''/shorten'') no_urls =
     Inr (\<lparr>Code = 405,
           HeaderMap = [(''Content-Type'', ''text/plain; charset=utf-8''),
                        (''X-Content-Type-Options'', ''nosniff'')],
           Written = [Bytes (''Method not allowed'' @ [newline])],
           wroteHeader = True\<rparr>, no_urls)"
proof -
  have m: "Method (get_path ''/shorten'') \<noteq> ''POST''"
    by (simp add: get_path_def)
  from shorten_rejects_other_methods [OF m, of no_urls] m show ?thesis
    by (simp add: http_Error_fresh StatusMethodNotAllowed_def)
qed

text \<open>
  Claim C6. A POST to \<^verbatim>\<open>/shorten\<close> whose body fails to decode into the struct is
  answered with status 400, and the state is returned as it was: nothing is stored.
\<close>

theorem shorten_rejects_undecodable_body:
  assumes "Method r = ''POST''"
    and "json_Decode (Body r) \<lparr>Original = [], ShortCode = []\<rparr> = Inl e"
  shows "shortenHandler NewRecorder r st =
           Inr (http_Error NewRecorder ''Invalid request body'' StatusBadRequest, st) \<and>
         Code (http_Error NewRecorder ''Invalid request body'' StatusBadRequest) = 400"
  using assms by (simp add: shortenHandler_bad_body Code_http_Error StatusBadRequest_def)

theorem shorten_rejects_undecodable_body_witness:
  "Method (post_shorten None) = ''POST'' \<and>
   json_Decode (Body (post_shorten None)) \<lparr>Original = [], ShortCode = []\<rparr> = Inl SyntaxError \<and>
   shortenHandler NewRecorder (post_shorten None) no_urls =
     Inr (\<lparr>Code = 400,
           HeaderMap = [(''Content-Type'', ''text/plain; charset=utf-8''),
                        (''X-Content-Type-Options'', ''nosniff'')],
           Written = [Bytes (''Invalid request body'' @ [newline])],
           wroteHeader = True\<rparr>, no_urls)"
proof -
  have m: "Method (post_shorten None) = ''POST''"
    by (simp add: post_shorten_def)
  have d: "json_Decode (Body (post_shorten None)) \<lparr>Original = [], ShortCode = []\<rparr> = Inl SyntaxError"
    by (simp add: post_shorten_def json_Decode_def)
  from shorten_rejects_undecodable_body [OF m d, of no_urls] m d show ?thesis
    by (simp add: http_Error_fresh StatusBadRequest_def)
qed


section \<open>The redirect operation\<close>

lemma redirectHandler_slash:
  "URL_Path r = CHR ''/'' # k \<Longrightarrow>
   redirectHandler w r st =
     (case urlMap st k of
        None \<Rightarrow> Inr (http_Error w ''Short code not found'' StatusNotFound, st)
      | Some originalURL \<Rightarrow> Inr (http_Redirect w r originalURL StatusTemporaryRedirect, st))"
  by (simp add: redirectHandler_def slice_from_def)

lemma redirectHandler_state:
  "redirectHandler w r st = Inr (w', st') \<Longrightarrow> st' = st"
  by (auto simp: redirectHandler_def split: sum.splits option.splits)


lemma redirect_example_GET:
  "http_Redirect NewRecorder (get_path p) ''https://example.com'' StatusTemporaryRedirect =
     \<lparr>Code = 307,
      HeaderMap = [(''Location'', ''https://example.com''),
                   (''Content-Type'', ''text/html; charset=utf-8'')],
      Written = [Bytes (''<a href='' @ [dquote] @ ''https://example.com'' @ [dquote] @
                        ''>Temporary Redirect</a>.'' @ [newline, newline])],
      wroteHeader = True\<rparr>"
  by (simp add: http_Redirect_def redirect_target_https Let_def Header_Get_def Header_Set_def
      WriteHeader_def Write_def NewRecorder_def hexEscapeNonASCII_def htmlEscape_def
      StatusText_def StatusTemporaryRedirect_def get_path_def byte_def dquote_def)

lemma Location_http_Error: "Header_Get (http_Error NewRecorder msg c) ''Location'' = None"
  by (simp add: http_Error_fresh Header_Get_def)

text \<open>
  Claim C4, as amended. For a request whose path is a slash followed by \<open>key\<close>, the
  key looked up is the path without its leading slash. The handler returns, and its
  reply has status 404 exactly when the key is not in the map. For an absent key the
  reply is the 404 error, with no \<^verbatim>\<open>Location\<close>. For a stored key the reply has
  status 307 and is the one \<^verbatim>\<open>http.Redirect\<close> gives for the stored URL: its
  \<^verbatim>\<open>Location\<close> header is the redirect target with the bytes outside ASCII
  escaped, where the target of a URL that parses with neither scheme nor host is the
  path made of it and the request's escaped path, and any other URL is its own target.
  The header is the stored URL itself whenever that URL starts with a scheme and has
  only ASCII bytes. (The theorem holds for every method, so for GET.)
\<close>

theorem redirect_not_found_iff_absent:
  assumes "URL_Path r = CHR ''/'' # key"
  shows "slice_from (URL_Path r) 1 = Inr key \<and>
    (\<exists>w'. redirectHandler NewRecorder r st = Inr (w', st) \<and>
       (Code w' = 404 \<longleftrightarrow> urlMap st key = None) \<and>
       (case urlMap st key of
          None \<Rightarrow>
            w' = http_Error NewRecorder ''Short code not found'' StatusNotFound \<and>
            Header_Get w' ''Location'' = None
        | Some originalURL \<Rightarrow>
            w' = http_Redirect NewRecorder r originalURL StatusTemporaryRedirect \<and>
            Code w' = 307 \<and>
            Header_Get w' ''Location'' =
              Some (hexEscapeNonASCII
                      (if url_Parse_relative originalURL
                       then absolute_target (EscapedPath r) originalURL
                       else originalURL)) \<and>
            (\<forall>scheme rest.
               originalURL = scheme @ CHR '':'' # rest \<and>
               scheme \<noteq> [] \<and> isLetter (hd scheme) \<and>
               list_all (\<lambda>x. isLetter x \<or> isDigit x \<or> x \<in> set ''+-.'') scheme \<and>
               list_all (\<lambda>x. byte x < 128) originalURL \<longrightarrow>
               Header_Get w' ''Location'' = Some originalURL)))"
proof (cases "urlMap st key")
  case None
  with assms show ?thesis
    by (simp add: redirectHandler_slash slice_from_def Code_http_Error StatusNotFound_def
        Location_http_Error)
next
  case (Some originalURL)
  let ?w = "http_Redirect NewRecorder r originalURL StatusTemporaryRedirect"
  have loc: "Header_Get ?w ''Location'' =
      Some (hexEscapeNonASCII
              (if url_Parse_relative originalURL
               then absolute_target (EscapedPath r) originalURL
               else originalURL))"
    by (simp add: Location_http_Redirect redirect_target_def)
  have same: "Header_Get ?w ''Location'' = Some originalURL"
    if "originalURL = scheme @ CHR '':'' # rest" and "scheme \<noteq> []" and "isLetter (hd scheme)"
      and "list_all (\<lambda>x. isLetter x \<or> isDigit x \<or> x \<in> set ''+-.'') scheme"
      and "list_all (\<lambda>x. byte x < 128) originalURL" for scheme rest
  proof -
    from that(1) redirect_target_with_scheme [OF that(4,2,3), of r rest]
    have "redirect_target r originalURL = originalURL" by simp
    with hexEscapeNonASCII_ascii [OF that(5)] show ?thesis
      by (simp add: Location_http_Redirect)
  qed
  have code: "Code ?w = 307"
    by (simp add: Code_http_Redirect StatusTemporaryRedirect_def)
  have h: "redirectHandler NewRecorder r st = Inr (?w, st)"
    using assms Some by (simp add: redirectHandler_slash)
  have k: "slice_from (URL_Path r) 1 = Inr key"
    using assms by (simp add: slice_from_def)
  have iff: "Code ?w = 404 \<longleftrightarrow> Some originalURL = None"
    using code by simp
  have all: "\<forall>scheme rest.
      originalURL = scheme @ CHR '':'' # rest \<and>
      scheme \<noteq> [] \<and> isLetter (hd scheme) \<and>
      list_all (\<lambda>x. isLetter x \<or> isDigit x \<or> x \<in> set ''+-.'') scheme \<and>
      list_all (\<lambda>x. byte x < 128) originalURL \<longrightarrow>
      Header_Get ?w ''Location'' = Some originalURL"
    using same by blast
  show ?thesis
    unfolding Some option.case
    by (rule conjI [OF k], rule exI [of _ ?w]) (intro conjI h iff refl code loc all)
qed

theorem redirect_not_found_iff_absent_witness:
  "URL_Path (get_path ''/aaaaaa'') = CHR ''/'' # ''aaaaaa'' \<and>
   URL_Path (get_path ''/abc123'') = CHR ''/'' # ''abc123'' \<and>
   redirectHandler NewRecorder (get_path ''/aaaaaa'') no_urls =
     Inr (http_Error NewRecorder ''Short code not found'' StatusNotFound, no_urls) \<and>
   redirectHandler NewRecorder (get_path ''/abc123'')
       (no_urls\<lparr>urlMap := [''aaaaaa'' \<mapsto> ''https://example.com'']\<rparr>) =
     Inr (http_Error NewRecorder ''Short code not found'' StatusNotFound,
          no_urls\<lparr>urlMap := [''aaaaaa'' \<mapsto> ''https://example.com'']\<rparr>) \<and>
   Code (http_Error NewRecorder ''Short code not found'' StatusNotFound) = 404 \<and>
   redirectHandler NewRecorder (get_path ''/aaaaaa'')
       (no_urls\<lparr>urlMap := [''aaaaaa'' \<mapsto> ''https://example.com'']\<rparr>) =
     Inr (\<lparr>Code = 307,
           HeaderMap = [(''Location'', ''https://example.com''),
                        (''Content-Type'', ''text/html; charset=utf-8'')],
           Written = [Bytes (''<a href='' @ [dquote] @ ''https://example.com'' @ [dquote] @
                             ''>Temporary Redirect</a>.'' @ [newline, newline])],
           wroteHeader = True\<rparr>,
          no_urls\<lparr>urlMap := [''aaaaaa'' \<mapsto> ''https://example.com'']\<rparr>)"
proof -
  have p: "URL_Path (get_path ''/aaaaaa'') = CHR ''/'' # ''aaaaaa''"
    and q: "URL_Path (get_path ''/abc123'') = CHR ''/'' # ''abc123''"
    by (simp_all add: get_path_def)
  from redirect_not_found_iff_absent [OF p, of no_urls]
       redirect_not_found_iff_absent
         [OF q, of "no_urls\<lparr>urlMap := [''aaaaaa'' \<mapsto> ''https://example.com'']\<rparr>"]
       redirect_not_found_iff_absent
         [OF p, of "no_urls\<lparr>urlMap := [''aaaaaa'' \<mapsto> ''https://example.com'']\<rparr>"] p q
  show ?thesis
    by (auto simp: no_urls_def redirect_example_GET)
qed

lemma relative_page_example: "url_Parse_relative ''example.com/page''"
  by (simp add: url_Parse_relative_def Cut_def parse_relative_def stringContainsCTLByte_def
      getScheme_def isLetter_def isDigit_def byte_def HasPrefix_def)

lemma EscapedPath_code_example: "EscapedPath (get_path ''/aaaaaa'') = ''/aaaaaa''"
  by (simp add: EscapedPath_def get_path_def escape_path_def shouldEscape_path_def
      isLetter_def isDigit_def byte_def)

lemma absolute_target_page_example:
  "absolute_target ''/aaaaaa'' ''example.com/page'' = ''/example.com/page''"
  by (simp add: absolute_target_def path_Split_def HasSuffix_def path_Clean_def Let_def)

text \<open>
  Claim C4 as it was stated fails in its last part: the 307 reply does not always name
  the stored URL. In the state reached by shortening \<^verbatim>\<open>example.com/page\<close>, the
  request for the stored code is answered with the \<^verbatim>\<open>Location\<close>
  \<^verbatim>\<open>/example.com/page\<close>, a path on the server itself.
\<close>

theorem redirect_location_is_not_stored_url:
  "reachable (no_urls\<lparr>urlMap := [''aaaaaa'' \<mapsto> ''example.com/page'']\<rparr>) \<and>
   redirectHandler NewRecorder (get_path ''/aaaaaa'')
       (no_urls\<lparr>urlMap := [''aaaaaa'' \<mapsto> ''example.com/page'']\<rparr>) =
     Inr (\<lparr>Code = 307,
           HeaderMap = [(''Location'', ''/example.com/page''),
                        (''Content-Type'', ''text/html; charset=utf-8'')],
           Written = [Bytes (''<a href='' @ [dquote] @ ''/example.com/page'' @ [dquote] @
                             ''>Temporary Redirect</a>.'' @ [newline, newline])],
           wroteHeader = True\<rparr>,
          no_urls\<lparr>urlMap := [''aaaaaa'' \<mapsto> ''example.com/page'']\<rparr>) \<and>
   ''/example.com/page'' \<noteq> ''example.com/page''"
proof -
  have t: "redirect_target (get_path ''/aaaaaa'') ''example.com/page'' = ''/example.com/page''"
    by (simp add: redirect_target_def relative_page_example EscapedPath_code_example
        absolute_target_page_example)
  have "redirectHandler NewRecorder (get_path ''/aaaaaa'')
       (no_urls\<lparr>urlMap := [''aaaaaa'' \<mapsto> ''example.com/page'']\<rparr>) =
     Inr (http_Redirect NewRecorder (get_path ''/aaaaaa'') ''example.com/page''
            StatusTemporaryRedirect,
          no_urls\<lparr>urlMap := [''aaaaaa'' \<mapsto> ''example.com/page'']\<rparr>)"
    by (simp add: redirectHandler_slash get_path_def)
  moreover have "http_Redirect NewRecorder (get_path ''/aaaaaa'') ''example.com/page''
        StatusTemporaryRedirect =
      \<lparr>Code = 307,
           HeaderMap = [(''Location'', ''/example.com/page''),
                        (''Content-Type'', ''text/html; charset=utf-8'')],
           Written = [Bytes (''<a href='' @ [dquote] @ ''/example.com/page'' @ [dquote] @
                             ''>Temporary Redirect</a>.'' @ [newline, newline])],
           wroteHeader = True\<rparr>"
    unfolding http_Redirect_def t
    by (simp add: Let_def Header_Get_def Header_Set_def WriteHeader_def Write_def NewRecorder_def
        hexEscapeNonASCII_def htmlEscape_def StatusText_def StatusTemporaryRedirect_def
        get_path_def byte_def dquote_def)
  ultimately show ?thesis
    by (simp add: reachable_after_shorten)
qed


section \<open>Stored codes\<close>

lemma shortenHandler_urlMap:
  assumes "shortenHandler w r st = Inr (w', st')"
  shows "st' = st \<or>
    (\<exists>shortCode url src'. length shortCode = 6 \<and> set shortCode \<subseteq> set chars \<and>
       st' = st\<lparr>urlMap := (urlMap st)(shortCode \<mapsto> url), randSource := src'\<rparr>)"
proof (cases "Method r = ''POST''")
  case False
  with assms show ?thesis by (simp add: shortenHandler_not_POST)
next
  case True
  show ?thesis
  proof (cases "json_Decode (Body r) \<lparr>Original = [], ShortCode = []\<rparr>")
    case (Inl e)
    with True assms show ?thesis by (simp add: shortenHandler_bad_body)
  next
    case (Inr urlPair)
    obtain shortCode src' where g: "generateShortCode (randSource st) = Inr (shortCode, src')"
      and l: "length shortCode = 6" and s: "set shortCode \<subseteq> set chars"
      using generateShortCode_returns by blast
    from assms have "st' = st\<lparr>urlMap := (urlMap st)(shortCode \<mapsto> Original urlPair), randSource := src'\<rparr>"
      by (simp add: shortenHandler_stores [OF True Inr g])
    with l s show ?thesis by blast
  qed
qed

lemma reachable_code_length:
  "reachable st \<Longrightarrow> urlMap st k = Some url \<Longrightarrow> length k = 6"
proof (induction arbitrary: k url rule: reachable.induct)
  case (start src)
  then show ?case by simp
next
  case (shorten st w r w' st')
  from shortenHandler_urlMap [OF shorten.hyps(2)] shorten.IH shorten.prems show ?case
    by (auto split: if_splits)
next
  case (redirect st w r w' st')
  from redirectHandler_state [OF redirect.hyps(2)] redirect.IH redirect.prems show ?case
    by simp
qed

text \<open>
  Claim C7. In every reachable state every stored code has length 6, so the empty
  string is not a key; the key looked up for the root path \<^verbatim>\<open>/\<close> is the empty
  string, and the reply is the 404 error.
\<close>

theorem root_path_is_not_found:
  assumes "reachable st" and "URL_Path r = ''/''"
  shows "slice_from (URL_Path r) 1 = Inr [] \<and>
    urlMap st [] = None \<and>
    length ` dom (urlMap st) \<subseteq> {6} \<and>
    redirectHandler NewRecorder r st =
      Inr (http_Error NewRecorder ''Short code not found'' StatusNotFound, st) \<and>
    Code (http_Error NewRecorder ''Short code not found'' StatusNotFound) = 404"
proof -
  have six: "length ` dom (urlMap st) \<subseteq> {6}"
    using reachable_code_length [OF assms(1)] by auto
  have absent: "urlMap st [] = None"
  proof (cases "urlMap st []")
    case None
    then show ?thesis .
  next
    case (Some url)
    with reachable_code_length [OF assms(1)] have "length ([]::string) = 6" .
    then show ?thesis by simp
  qed
  from assms(2) absent six show ?thesis
    by (simp add: redirectHandler_slash slice_from_def Code_http_Error StatusNotFound_def)
qed

theorem root_path_is_not_found_witness:
  "reachable (no_urls\<lparr>urlMap := [''aaaaaa'' \<mapsto> ''https://example.com'']\<rparr>) \<and>
   URL_Path (get_path ''/'') = ''/'' \<and>
   urlMap (no_urls\<lparr>urlMap := [''aaaaaa'' \<mapsto> ''https://example.com'']\<rparr>) ''aaaaaa'' =
     Some ''https://example.com'' \<and>
   length ''aaaaaa'' = 6 \<and>
   urlMap (no_urls\<lparr>urlMap := [''aaaaaa'' \<mapsto> ''https://example.com'']\<rparr>) [] = None \<and>
   length ` dom (urlMap (no_urls\<lparr>urlMap := [''aaaaaa'' \<mapsto> ''https://example.com'']\<rparr>))
     \<subseteq> {6} \<and>
   redirectHandler NewRecorder (get_path ''/'')
       (no_urls\<lparr>urlMap := [''aaaaaa'' \<mapsto> ''https://example.com'']\<rparr>) =
     Inr (http_Error NewRecorder ''Short code not found'' StatusNotFound,
          no_urls\<lparr>urlMap := [''aaaaaa'' \<mapsto> ''https://example.com'']\<rparr>) \<and>
   Code (http_Error NewRecorder ''Short code not found'' StatusNotFound) = 404"
proof -
  have r: "reachable (no_urls\<lparr>urlMap := [''aaaaaa'' \<mapsto> ''https://example.com'']\<rparr>)"
    by (rule reachable_after_shorten)
  have p: "URL_Path (get_path ''/'') = ''/''"
    by (simp add: get_path_def)
  have m: "urlMap (no_urls\<lparr>urlMap := [''aaaaaa'' \<mapsto> ''https://example.com'']\<rparr>) ''aaaaaa'' =
     Some ''https://example.com''"
    by simp
  from root_path_is_not_found [OF r p] r p m show ?thesis
    by simp
qed


section \<open>What changes the map\<close>

lemma shortenHandler_error_path:
  assumes "shortenHandler w r st = Inr (w', st')"
    and "Method r \<noteq> ''POST'' \<or>
         (\<exists>e. json_Decode (Body r) \<lparr>Original = [], ShortCode = []\<rparr> = Inl e)"
  shows "st' = st"
proof (cases "Method r = ''POST''")
  case False
  with assms(1) show ?thesis by (simp add: shortenHandler_not_POST)
next
  case True
  with assms(2) obtain e
    where "json_Decode (Body r) \<lparr>Original = [], ShortCode = []\<rparr> = Inl e" by blast
  with True assms(1) show ?thesis by (simp add: shortenHandler_bad_body)
qed

lemma shortenHandler_error_state:
  assumes "shortenHandler NewRecorder r st = Inr (w', st')" and "Code w' \<noteq> 200"
  shows "st' = st"
proof (cases "Method r = ''POST''")
  case False
  with assms show ?thesis by (simp add: shortenHandler_not_POST)
next
  case True
  show ?thesis
  proof (cases "json_Decode (Body r) \<lparr>Original = [], ShortCode = []\<rparr>")
    case (Inl e)
    with True assms show ?thesis by (simp add: shortenHandler_bad_body)
  next
    case (Inr urlPair)
    obtain shortCode src' where g: "generateShortCode (randSource st) = Inr (shortCode, src')"
      using generateShortCode_returns by blast
    from assms(1) have "Code w' = 200"
      by (auto simp: shortenHandler_stores [OF True Inr g] json_reply)
    with assms(2) show ?thesis by simp
  qed
qed

text \<open>
  Claim C8. The redirect operation returns the state it was given, whatever its reply;
  the shorten operation returns the state it was given when the method is not POST or
  the body fails to decode, which are the cases in which its reply has status 405 or
  400; and after any shorten operation every key of the map is still a key, the map
  being either the same or the old one with one code set.
\<close>

theorem map_changes_only_by_shorten:
  "(redirectHandler w r st = Inr (w', st') \<longrightarrow> st' = st) \<and>
   (shortenHandler w r st = Inr (w', st') \<and>
      (Method r \<noteq> ''POST'' \<or>
       (\<exists>e. json_Decode (Body r) \<lparr>Original = [], ShortCode = []\<rparr> = Inl e)) \<longrightarrow>
      st' = st) \<and>
   (shortenHandler NewRecorder r st = Inr (w', st') \<and> (Code w' = 405 \<or> Code w' = 400) \<longrightarrow>
      st' = st) \<and>
   (shortenHandler w r st = Inr (w', st') \<longrightarrow>
      dom (urlMap st) \<subseteq> dom (urlMap st') \<and>
      (urlMap st' = urlMap st \<or>
       (\<exists>shortCode url. urlMap st' = (urlMap st)(shortCode \<mapsto> url))))"
proof (intro conjI impI)
  assume "redirectHandler w r st = Inr (w', st')"
  then show "st' = st" by (rule redirectHandler_state)
next
  assume "shortenHandler w r st = Inr (w', st') \<and>
      (Method r \<noteq> ''POST'' \<or>
       (\<exists>e. json_Decode (Body r) \<lparr>Original = [], ShortCode = []\<rparr> = Inl e))"
  then show "st' = st" by (blast intro: shortenHandler_error_path)
next
  assume "shortenHandler NewRecorder r st = Inr (w', st') \<and> (Code w' = 405 \<or> Code w' = 400)"
  then show "st' = st" by (auto dest: shortenHandler_error_state)
next
  assume a: "shortenHandler w r st = Inr (w', st')"
  from shortenHandler_urlMap [OF a] show "dom (urlMap st) \<subseteq> dom (urlMap st')"
    by auto
  from shortenHandler_urlMap [OF a]
  show "urlMap st' = urlMap st \<or> (\<exists>shortCode url. urlMap st' = (urlMap st)(shortCode \<mapsto> url))"
  proof
    assume "st' = st"
    then show ?thesis by simp
  next
    assume "\<exists>shortCode url src'. length shortCode = 6 \<and> set shortCode \<subseteq> set chars \<and>
       st' = st\<lparr>urlMap := (urlMap st)(shortCode \<mapsto> url), randSource := src'\<rparr>"
    then obtain shortCode url src'
      where "st' = st\<lparr>urlMap := (urlMap st)(shortCode \<mapsto> url), randSource := src'\<rparr>"
      by blast
    then have "urlMap st' = (urlMap st)(shortCode \<mapsto> url)" by simp
    then show ?thesis by blast
  qed
qed

theorem map_changes_only_by_shorten_witness:
  "redirectHandler NewRecorder (get_path ''/abc123'') no_urls =
     Inr (http_Error NewRecorder ''Short code not found'' StatusNotFound, no_urls) \<and>
   shortenHandler NewRecorder (get_path ''/shorten'') no_urls =
     Inr (http_Error NewRecorder ''Method not allowed'' StatusMethodNotAllowed, no_urls) \<and>
   Code (http_Error NewRecorder ''Method not allowed'' StatusMethodNotAllowed) = 405 \<and>
   shortenHandler NewRecorder
       (post_shorten (Some (JObject [(''original'', JString ''https://example.com'')]))) no_urls =
     Inr (\<lparr>Code = 200, HeaderMap = [(''Content-Type'', ''application/json'')],
           Written = [JSONLine [(''short_code'', ''aaaaaa''),
                                (''short_url'', ''http://localhost:8080/aaaaaa'')]],
           wroteHeader = True\<rparr>,
          no_urls\<lparr>urlMap := [''aaaaaa'' \<mapsto> ''https://example.com'']\<rparr>) \<and>
   dom (urlMap no_urls) \<subseteq> dom (urlMap (no_urls\<lparr>urlMap := [''aaaaaa'' \<mapsto> ''https://example.com'']\<rparr>))"
proof -
  let ?e404 = "http_Error NewRecorder ''Short code not found'' StatusNotFound"
  let ?e405 = "http_Error NewRecorder ''Method not allowed'' StatusMethodNotAllowed"
  let ?ok = "\<lparr>Code = 200, HeaderMap = [(''Content-Type'', ''application/json'')],
           Written = [JSONLine [(''short_code'', ''aaaaaa''),
                                (''short_url'', ''http://localhost:8080/aaaaaa'')]],
           wroteHeader = True\<rparr>"
  let ?st = "no_urls\<lparr>urlMap := [''aaaaaa'' \<mapsto> ''https://example.com'']\<rparr>"
  have 1: "redirectHandler NewRecorder (get_path ''/abc123'') no_urls = Inr (?e404, no_urls)"
    by (simp add: redirectHandler_slash get_path_def no_urls_def)
  have 2: "shortenHandler NewRecorder (get_path ''/shorten'') no_urls = Inr (?e405, no_urls)"
    by (simp add: shortenHandler_not_POST get_path_def)
  have 3: "Code ?e405 = 405"
    by (simp add: Code_http_Error StatusMethodNotAllowed_def)
  have 4: "shortenHandler NewRecorder
       (post_shorten (Some (JObject [(''original'', JString ''https://example.com'')]))) no_urls =
     Inr (?ok, ?st)"
    by (rule shorten_example)
  from map_changes_only_by_shorten
         [of NewRecorder "get_path ''/abc123''" no_urls ?e404 no_urls]
       map_changes_only_by_shorten
         [of NewRecorder "get_path ''/shorten''" no_urls ?e405 no_urls]
       map_changes_only_by_shorten
         [of NewRecorder "post_shorten (Some (JObject [(''original'', JString ''https://example.com'')]))"
             no_urls ?ok ?st]
       1 2 3 4
  show ?thesis by simp
qed


section \<open>A body without the original URL\<close>





lemma field_of_key_short_code: "field_of_key ''short_code'' = Some FShortCode"
  by (simp add: field_of_key_def)


text \<open>
  Bodies that are JSON text and still do not decode into the struct are among those of
  claim C6, whether or not they have the field: a value that is neither an object nor
  \<^verbatim>\<open>null\<close>, and an object with a member that names a field and holds anything but
  a string or \<^verbatim>\<open>null\<close>. They are answered with status 400.
\<close>

lemma json_Decode_other_value:
  assumes "j \<noteq> JNull" and "\<forall>kvs. j \<noteq> JObject kvs"
  shows "json_Decode (Some j) p = Inl UnmarshalTypeError"
  using assms by (cases j) (simp_all add: json_Decode_def)

lemma shorten_rejects_other_value:
  assumes "Method r = ''POST''" and "Body r = Some j"
    and "j \<noteq> JNull" and "\<forall>kvs. j \<noteq> JObject kvs"
  shows "shortenHandler NewRecorder r st =
           Inr (http_Error NewRecorder ''Invalid request body'' StatusBadRequest, st)"
  using assms(1,2) json_Decode_other_value [OF assms(3,4)]
  by (simp add: shortenHandler_bad_body)

lemma shorten_rejects_number_as_short_code:
  "shortenHandler NewRecorder (post_shorten (Some (JObject [(''short_code'', JNumber ''1'')]))) no_urls =
     Inr (http_Error NewRecorder ''Invalid request body'' StatusBadRequest, no_urls)"
  by (simp add: shortenHandler_def post_shorten_def json_Decode_def field_of_key_short_code)


section \<open>Shorten, then redirect\<close>

text \<open>
  Claim C1, as amended. After a POST to \<^verbatim>\<open>/shorten\<close> that decodes and replies
  with the short code \<open>c\<close>, a request for the path \<^verbatim>\<open>/\<close> followed by \<open>c\<close> is
  answered with status 307, and its \<^verbatim>\<open>Location\<close> header is what
  \<^verbatim>\<open>http.Redirect\<close> makes of the original URL: the redirect target, with the bytes
  outside ASCII escaped. The header equals the original URL whenever that URL starts
  with a scheme (a letter, then letters, digits, \<^verbatim>\<open>+\<close>, \<^verbatim>\<open>-\<close> or
  \<^verbatim>\<open>.\<close>, up to a colon) and has only ASCII bytes.
\<close>

theorem round_trip_redirects:
  assumes "Method r = ''POST''"
    and "json_Decode (Body r) \<lparr>Original = [], ShortCode = []\<rparr> = Inr urlPair"
    and "shortenHandler NewRecorder r st = Inr (w1, st1)"
    and "Written w1 = [JSONLine m]"
    and "map_of m ''short_code'' = Some c"
    and "URL_Path r2 = CHR ''/'' # c"
  shows "\<exists>w2. redirectHandler NewRecorder r2 st1 = Inr (w2, st1) \<and>
      Code w2 = 307 \<and>
      Header_Get w2 ''Location'' =
        Some (hexEscapeNonASCII (redirect_target r2 (Original urlPair))) \<and>
      (\<forall>scheme rest.
         Original urlPair = scheme @ CHR '':'' # rest \<and>
         scheme \<noteq> [] \<and> isLetter (hd scheme) \<and>
         list_all (\<lambda>x. isLetter x \<or> isDigit x \<or> x \<in> set ''+-.'') scheme \<and>
         list_all (\<lambda>x. byte x < 128) (Original urlPair) \<longrightarrow>
         Header_Get w2 ''Location'' = Some (Original urlPair))"
proof -
  obtain shortCode src' where g: "generateShortCode (randSource st) = Inr (shortCode, src')"
    using generateShortCode_returns by blast
  from assms(3) have w1: "w1 = json_Encode (Header_Set NewRecorder ''Content-Type'' ''application/json'')
            [(''short_code'', shortCode), (''short_url'', ''http://localhost:8080/'' @ shortCode)]"
    and st1: "st1 = st\<lparr>urlMap := (urlMap st)(shortCode \<mapsto> Original urlPair), randSource := src'\<rparr>"
    by (simp_all add: shortenHandler_stores [OF assms(1,2) g])
  from w1 assms(4) have "m = [(''short_code'', shortCode), (''short_url'', ''http://localhost:8080/'' @ shortCode)]"
    by (simp add: json_reply)
  with assms(5) have "c = shortCode" by simp
  with st1 have stored: "urlMap st1 c = Some (Original urlPair)" by simp
  let ?w2 = "http_Redirect NewRecorder r2 (Original urlPair) StatusTemporaryRedirect"
  have h: "redirectHandler NewRecorder r2 st1 = Inr (?w2, st1)"
    by (simp add: redirectHandler_slash [OF assms(6)] stored)
  have code: "Code ?w2 = 307"
    by (simp add: Code_http_Redirect StatusTemporaryRedirect_def)
  have loc: "Header_Get ?w2 ''Location'' =
      Some (hexEscapeNonASCII (redirect_target r2 (Original urlPair)))"
    by (rule Location_http_Redirect)
  have same: "Header_Get ?w2 ''Location'' = Some (Original urlPair)"
    if "Original urlPair = scheme @ CHR '':'' # rest" and "scheme \<noteq> []" and "isLetter (hd scheme)"
      and "list_all (\<lambda>x. isLetter x \<or> isDigit x \<or> x \<in> set ''+-.'') scheme"
      and "list_all (\<lambda>x. byte x < 128) (Original urlPair)" for scheme rest
  proof -
    from that(1) redirect_target_with_scheme [OF that(4,2,3), of r2 rest]
    have "redirect_target r2 (Original urlPair) = Original urlPair" by simp
    with loc hexEscapeNonASCII_ascii [OF that(5)] show ?thesis by simp
  qed
  from h code loc same show ?thesis by blast
qed

theorem round_trip_redirects_witness:
  "Method (post_shorten (Some (JObject [(''original'', JString ''https://example.com'')]))) = ''POST'' \<and>
   json_Decode (Body (post_shorten (Some (JObject [(''original'', JString ''https://example.com'')]))))
       \<lparr>Original = [], ShortCode = []\<rparr> =
     Inr \<lparr>Original = ''https://example.com'', ShortCode = []\<rparr> \<and>
   shortenHandler NewRecorder
       (post_shorten (Some (JObject [(''original'', JString ''https://example.com'')]))) no_urls =
     Inr (\<lparr>Code = 200, HeaderMap = [(''Content-Type'', ''application/json'')],
           Written = [JSONLine [(''short_code'', ''aaaaaa''),
                                (''short_url'', ''http://localhost:8080/aaaaaa'')]],
           wroteHeader = True\<rparr>,
          no_urls\<lparr>urlMap := [''aaaaaa'' \<mapsto> ''https://example.com'']\<rparr>) \<and>
   URL_Path (get_path ''/aaaaaa'') = CHR ''/'' # ''aaaaaa'' \<and>
   (\<exists>w2. redirectHandler NewRecorder (get_path ''/aaaaaa'')
            (no_urls\<lparr>urlMap := [''aaaaaa'' \<mapsto> ''https://example.com'']\<rparr>) =
          Inr (w2, no_urls\<lparr>urlMap := [''aaaaaa'' \<mapsto> ''https://example.com'']\<rparr>) \<and>
        Code w2 = 307 \<and>
        Header_Get w2 ''Location'' = Some ''https://example.com'')"
proof -
  let ?r = "post_shorten (Some (JObject [(''original'', JString ''https://example.com'')]))"
  let ?p = "\<lparr>Original = ''https://example.com'', ShortCode = []\<rparr>"
  let ?m = "[(''short_code'', ''aaaaaa''), (''short_url'', ''http://localhost:8080/aaaaaa'')]"
  let ?w1 = "\<lparr>Code = 200, HeaderMap = [(''Content-Type'', ''application/json'')],
           Written = [JSONLine ?m], wroteHeader = True\<rparr>"
  let ?st1 = "no_urls\<lparr>urlMap := [''aaaaaa'' \<mapsto> ''https://example.com'']\<rparr>"
  have 1: "Method ?r = ''POST''"
    by (simp add: post_shorten_def)
  have 2: "json_Decode (Body ?r) \<lparr>Original = [], ShortCode = []\<rparr> = Inr ?p"
    by (simp add: post_shorten_def decode_original)
  have 3: "shortenHandler NewRecorder ?r no_urls = Inr (?w1, ?st1)"
    by (rule shorten_example)
  have 4: "Written ?w1 = [JSONLine ?m]"
    by simp
  have 5: "map_of ?m ''short_code'' = Some ''aaaaaa''"
    by simp
  have 6: "URL_Path (get_path ''/aaaaaa'') = CHR ''/'' # ''aaaaaa''"
    by (simp add: get_path_def)
  have 7: "Original ?p = ''https'' @ CHR '':'' # ''//example.com'' \<and>
         ''https'' \<noteq> [] \<and> isLetter (hd ''https'') \<and>
         list_all (\<lambda>x. isLetter x \<or> isDigit x \<or> x \<in> set ''+-.'') ''https'' \<and>
         list_all (\<lambda>x. byte x < 128) (Original ?p)"
    by (simp add: isLetter_def byte_def)
  from round_trip_redirects [OF 1 2 3 4 5 6] 7
  have "\<exists>w2. redirectHandler NewRecorder (get_path ''/aaaaaa'') ?st1 = Inr (w2, ?st1) \<and>
        Code w2 = 307 \<and> Header_Get w2 ''Location'' = Some (Original ?p)"
    by blast
  with 1 2 3 6 show ?thesis by simp
qed

lemma relative_example: "url_Parse_relative ''example.com''"
  by (simp add: url_Parse_relative_def Cut_def parse_relative_def stringContainsCTLByte_def
      getScheme_def isLetter_def isDigit_def byte_def HasPrefix_def)

lemma absolute_target_example: "absolute_target ''/aaaaaa'' ''example.com'' = ''/example.com''"
  by (simp add: absolute_target_def path_Split_def HasSuffix_def path_Clean_def Let_def)

text \<open>
  Claim C1 as it was stated fails for an original URL without a scheme: shortening
  \<^verbatim>\<open>example.com\<close> and requesting the returned code gives a 307 whose
  \<^verbatim>\<open>Location\<close> is \<^verbatim>\<open>/example.com\<close>, the path that \<^verbatim>\<open>http.Redirect\<close>
  makes of a relative target.
\<close>

theorem round_trip_relative_url:
  "shortenHandler NewRecorder
       (post_shorten (Some (JObject [(''original'', JString ''example.com'')]))) no_urls =
     Inr (\<lparr>Code = 200, HeaderMap = [(''Content-Type'', ''application/json'')],
           Written = [JSONLine [(''short_code'', ''aaaaaa''),
                                (''short_url'', ''http://localhost:8080/aaaaaa'')]],
           wroteHeader = True\<rparr>,
          no_urls\<lparr>urlMap := [''aaaaaa'' \<mapsto> ''example.com'']\<rparr>) \<and>
   redirectHandler NewRecorder (get_path ''/aaaaaa'')
       (no_urls\<lparr>urlMap := [''aaaaaa'' \<mapsto> ''example.com'']\<rparr>) =
     Inr (\<lparr>Code = 307,
           HeaderMap = [(''Location'', ''/example.com''),
                        (''Content-Type'', ''text/html; charset=utf-8'')],
           Written = [Bytes (''<a href='' @ [dquote] @ ''/example.com'' @ [dquote] @
                             ''>Temporary Redirect</a>.'' @ [newline, newline])],
           wroteHeader = True\<rparr>,
          no_urls\<lparr>urlMap := [''aaaaaa'' \<mapsto> ''example.com'']\<rparr>) \<and>
   ''/example.com'' \<noteq> ''example.com''"
proof -
  have t: "redirect_target (get_path ''/aaaaaa'') ''example.com'' = ''/example.com''"
    by (simp add: redirect_target_def relative_example EscapedPath_code_example
        absolute_target_example)
  have "redirectHandler NewRecorder (get_path ''/aaaaaa'')
       (no_urls\<lparr>urlMap := [''aaaaaa'' \<mapsto> ''example.com'']\<rparr>) =
     Inr (http_Redirect NewRecorder (get_path ''/aaaaaa'') ''example.com'' StatusTemporaryRedirect,
          no_urls\<lparr>urlMap := [''aaaaaa'' \<mapsto> ''example.com'']\<rparr>)"
    by (simp add: redirectHandler_slash get_path_def)
  moreover have "http_Redirect NewRecorder (get_path ''/aaaaaa'') ''example.com'' StatusTemporaryRedirect =
      \<lparr>Code = 307,
           HeaderMap = [(''Location'', ''/example.com''),
                        (''Content-Type'', ''text/html; charset=utf-8'')],
           Written = [Bytes (''<a href='' @ [dquote] @ ''/example.com'' @ [dquote] @
                             ''>Temporary Redirect</a>.'' @ [newline, newline])],
           wroteHeader = True\<rparr>"
    unfolding http_Redirect_def t
    by (simp add: Let_def Header_Get_def Header_Set_def WriteHeader_def Write_def NewRecorder_def
        hexEscapeNonASCII_def htmlEscape_def StatusText_def StatusTemporaryRedirect_def
        get_path_def byte_def dquote_def)
  ultimately show ?thesis
    by (simp add: shorten_example)
qed


section \<open>The method of a redirect request\<close>

lemma redirect_target_Method [simp]:
  "redirect_target (r\<lparr>Method := m\<rparr>) url = redirect_target r url"
  by (simp add: redirect_target_def EscapedPath_def)




end
